theory Spec2Isabelle
  imports Main "HOL-Library.Word"
begin

section \<open>Data model of \<open>bt_traits_details.c\<close>\<close>

text \<open>
  The per-layout cursor helpers of the B-tree: the Huffman configuration gate, the
  cursor validity checks, the row-store iteration setup and the diagnostic key-order
  checks. C integers keep their width: \<open>uint32_t\<close> is \<open>32 word\<close>, \<open>uint64_t\<close> and
  \<open>size_t\<close> are \<open>64 word\<close>, \<open>int\<close> return codes are \<open>int\<close>.
\<close>

type_synonym u32 = "32 word"
type_synonym u64 = "64 word"
type_synonym size_t = "64 word"

text \<open>A \<open>WT_ITEM\<close> is read through \<open>data\<close> and \<open>size\<close> only: a byte string.\<close>

type_synonym item = "8 word list"

text \<open>Pointers to insert nodes and insert-list heads are compared, never followed.\<close>

type_synonym addr = nat

definition UINT32_MAX :: u32 where
  "UINT32_MAX = 0xFFFFFFFF"

definition EINVAL :: int where
  "EINVAL = 22"

datatype update_type =
  WT_UPDATE_INVALID | WT_UPDATE_MODIFY | WT_UPDATE_RESERVE | WT_UPDATE_STANDARD
  | WT_UPDATE_TOMBSTONE

record wt_update =
  upd_type :: update_type
  upd_data :: item

datatype cell_type =
  WT_CELL_DEL | WT_CELL_KEY | WT_CELL_VALUE | WT_CELL_VALUE_OVFL | WT_CELL_VALUE_COPY

text \<open>
  An on-page cell; \<open>wt_cell_type\<close> stands for \<open>__wt_cell_type\<close>, which reads the type
  out of the cell's descriptor byte.
\<close>

datatype wt_cell = Cell cell_type item

fun wt_cell_type :: "wt_cell \<Rightarrow> cell_type" where
  "wt_cell_type (Cell t d) = t"

text \<open>
  \<open>mod_row_update\<close> is \<open>NULL\<close> or an array of update-chain heads, one per on-page
  slot; a chain is the list of its updates, newest first, and a \<open>NULL\<close> head is the
  empty list.
\<close>

record page_modify =
  mod_row_update :: "wt_update list list option"

text \<open>
  \<open>row_insert_smallest\<close> is the value of the macro \<open>WT_ROW_INSERT_SMALLEST(page)\<close>,
  defined outside this file: the head of the insert list of the keys below the first
  on-page key, or \<open>NULL\<close>.
\<close>

record wt_page =
  entries :: u32
  pg_var :: "wt_cell list"
  modify :: "page_modify option"
  row_insert_smallest :: "addr option"

record wt_ref =
  ref_recno :: u64
  page :: wt_page

datatype cbt_flag = WT_CBT_ACTIVE | WT_CBT_ITERATE_APPEND | WT_CBT_VAR_ONPAGE_MATCH

record cursor_btree =
  ref :: wt_ref
  recno :: u64
  slot :: u32
  ins :: "addr option"
  ins_head :: "addr option"
  flags :: "cbt_flag set"
  row_iteration_slot :: u32
  iface_key :: item
  lastkey :: item
  lastrecno :: u64

text \<open>
  What a call cannot return from: a failed \<open>WT_ASSERT\<close> of a diagnostic build, an array
  read outside the array (undefined behaviour in C), and the panic of the key-order
  checks, which carries the direction and the two compared values.
\<close>

datatype panic_detail =
  OutOfOrderRecno bool u64 u64
  | OutOfOrderKey bool item item

datatype fault = AssertFailure | OutOfBounds | Panic int panic_detail

section \<open>Huffman configuration gate\<close>

text \<open>
  \<open>WT_RET_MSG(session, EINVAL, msg)\<close> reports \<open>msg\<close> and returns \<open>EINVAL\<close>; the
  functions read nothing but \<open>len\<close>. The result is the return code and the message
  reported, if any.
\<close>

definition bt_col_fix_huffman :: "size_t \<Rightarrow> int \<times> string option" where
  "bt_col_fix_huffman len =
     (EINVAL, Some ''fixed-size column-store files may not be Huffman encoded'')"

definition bt_col_var_huffman :: "size_t \<Rightarrow> int \<times> string option" where
  "bt_col_var_huffman len =
     (if len \<noteq> 0
      then (EINVAL,
        Some ''the keys of variable-length column-store files may not be Huffman encoded'')
      else (0, None))"

definition bt_row_huffman :: "size_t \<Rightarrow> int \<times> string option" where
  "bt_row_huffman len = (0, None)"

section \<open>Cursor validity\<close>

text \<open>
  The state a validity check works on: the cursor (with its page, through \<open>ref\<close>) and
  the two output parameters. \<open>updp\<close> is \<open>None\<close> when the caller passed a \<open>NULL\<close>
  pointer and \<open>Some v\<close> when it points to a location holding \<open>v\<close>; \<open>valid\<close> is the
  content of \<open>*valid\<close>. Each function returns a fault, or its return code and the state
  it leaves.
\<close>

record cv_state =
  cbt :: cursor_btree
  updp :: "wt_update option option"
  valid :: bool

definition bt_col_fix_cursor_valid :: "cv_state \<Rightarrow> fault + int \<times> cv_state" where
  "bt_col_fix_cursor_valid s =
     (let c = cbt s in
      if recno c \<ge> ref_recno (ref c) + ucast (entries (page (ref c)))
      then Inr (0, s)
      else Inr (0, s\<lparr>valid := True\<rparr>))"

text \<open>
  \<open>WT_ASSERT\<close> is defined outside this file: it aborts in a diagnostic build and is
  empty otherwise, so the build (\<open>diag\<close>) is a parameter of the two functions that
  assert.
\<close>

definition slot_assertion :: "cursor_btree \<Rightarrow> bool" where
  "slot_assertion c =
     (slot c = UINT32_MAX \<or> slot c < entries (page (ref c)))"

definition bt_col_var_cursor_valid :: "bool \<Rightarrow> cv_state \<Rightarrow> fault + int \<times> cv_state" where
  "bt_col_var_cursor_valid diag s =
     (let c = cbt s; pg = page (ref c) in
      if entries pg = 0 then Inr (0, s)
      else if diag \<and> \<not> slot_assertion c then Inl AssertFailure
      else if ins c \<noteq> None \<and> WT_CBT_VAR_ONPAGE_MATCH \<notin> flags c then Inr (0, s)
      else if \<not> unat (slot c) < length (pg_var pg) then Inl OutOfBounds
      else if wt_cell_type (pg_var pg ! unat (slot c)) = WT_CELL_DEL then Inr (0, s)
      else Inr (0, s\<lparr>valid := True\<rparr>))"

text \<open>
  \<open>__wt_txn_read\<close>, the visibility resolver, is outside this file: it is the
  parameter \<open>txn_read\<close>, from an update chain to a return code and the update written
  to \<open>upd\<close> (\<open>None\<close> for \<open>NULL\<close>). \<open>WT_RET\<close> returns a non-zero code at once.
\<close>

type_synonym resolver = "wt_update list \<Rightarrow> int \<times> wt_update option"

definition bt_row_cursor_valid ::
  "bool \<Rightarrow> resolver \<Rightarrow> cv_state \<Rightarrow> fault + int \<times> cv_state" where
  "bt_row_cursor_valid diag txn_read s =
     (let c = cbt s; pg = page (ref c) in
      if entries pg = 0 then Inr (0, s)
      else if diag \<and> \<not> slot_assertion c then Inl AssertFailure
      else if ins c \<noteq> None then Inr (0, s)
      else (case modify pg of
          None \<Rightarrow> Inr (0, s\<lparr>valid := True\<rparr>)
        | Some m \<Rightarrow>
           (case mod_row_update m of
              None \<Rightarrow> Inr (0, s\<lparr>valid := True\<rparr>)
            | Some arr \<Rightarrow>
               if \<not> unat (slot c) < length arr then Inl OutOfBounds
               else (case txn_read (arr ! unat (slot c)) of
                  (r, upd) \<Rightarrow>
                    if r \<noteq> 0 then Inr (r, s)
                    else (case upd of
                        None \<Rightarrow> Inr (0, s\<lparr>valid := True\<rparr>)
                      | Some u \<Rightarrow>
                          if upd_type u = WT_UPDATE_TOMBSTONE then Inr (0, s)
                          else Inr (0,
                            (if updp s \<noteq> None then s\<lparr>updp := Some (Some u)\<rparr> else s)
                              \<lparr>valid := True\<rparr>))))))"

section \<open>Row-store iteration setup\<close>

text \<open>
  \<open>row_iteration_slot\<close> is a \<open>uint32_t\<close>, as \<open>slot\<close> is: the arithmetic is modulo
  \<open>2 ^ 32\<close>.
\<close>

definition bt_row_cursor_iterate_setup :: "cursor_btree \<Rightarrow> cursor_btree" where
  "bt_row_cursor_iterate_setup c =
     (let pg = page (ref c);
          c1 = c\<lparr>row_iteration_slot := (slot c + 1) * 2\<rparr> in
      if ins_head c1 \<noteq> None then
        if ins_head c1 = row_insert_smallest pg
        then c1\<lparr>row_iteration_slot := 1\<rparr>
        else c1\<lparr>row_iteration_slot := row_iteration_slot c1 + 1\<rparr>
      else c1)"

text \<open>
  The position a cursor is at, in the words of the slot mapping: an on-page slot, the
  smallest-key insert list, or the insert list that follows an on-page slot. It is
  read off the fields the setup tests.
\<close>

datatype row_position = OnPage u32 | SmallestList | InsertList u32

definition row_position_of :: "cursor_btree \<Rightarrow> row_position" where
  "row_position_of c =
     (if ins_head c = None then OnPage (slot c)
      else if ins_head c = row_insert_smallest (page (ref c)) then SmallestList
      else InsertList (slot c))"

section \<open>Key-order checks (diagnostic builds)\<close>

text \<open>
  The collaborators of the row-store check are outside this file and can fail:
  \<open>__wt_compare\<close> (return code and comparison result; it runs the table's collator),
  \<open>__wt_buf_set\<close> and \<open>__wt_scr_alloc\<close>, whose fallible part is an allocation. The
  environment gives the comparison, the return code of the copy and what a failed copy
  leaves in the buffer, and the return codes of the scratch allocations by their order
  in the call.
\<close>

record env =
  wt_compare :: "item \<Rightarrow> item \<Rightarrow> int \<times> int"
  wt_buf_set_rc :: int
  wt_buf_set_left :: "item \<Rightarrow> item \<Rightarrow> item"
  wt_scr_alloc :: "nat \<Rightarrow> int"

text \<open>
  Modelled from the spec: \<open>__wt_buf_set\<close> is outside this file. On success it makes
  the buffer a copy of the given bytes ("sets the baseline to the cursor's current
  position"). Nothing is said of a failed copy: its error code and the content it leaves
  in the buffer are the environment's.
\<close>

definition wt_buf_set :: "env \<Rightarrow> item \<Rightarrow> item \<Rightarrow> int \<times> item" where
  "wt_buf_set e buf bytes =
     (if wt_buf_set_rc e \<noteq> 0 then (wt_buf_set_rc e, wt_buf_set_left e buf bytes)
      else (0, bytes))"

definition bt_col_cursor_key_order_init :: "cursor_btree \<Rightarrow> int \<times> cursor_btree" where
  "bt_col_cursor_key_order_init c = (0, c\<lparr>lastrecno := recno c\<rparr>)"

definition bt_row_cursor_key_order_init :: "env \<Rightarrow> cursor_btree \<Rightarrow> int \<times> cursor_btree" where
  "bt_row_cursor_key_order_init e c =
     (case wt_buf_set e (lastkey c) (iface_key c) of
        (r, b) \<Rightarrow> (r, c\<lparr>lastkey := b\<rparr>))"

text \<open>
  \<open>WT_RECNO_OOB\<close>, the record number that stands for "no record", is defined outside
  this file: it is the parameter \<open>oob\<close> of the column-store check and of the reset.
\<close>

text \<open>
  Modelled from the spec: the macros \<open>WT_PANIC_RET\<close> and \<open>WT_PANIC_ERR\<close> are defined
  outside this file. They report the message with its two values and end the operation
  irrecoverably ("fatal", "not a normal error return"), which is the fault \<open>Panic\<close>
  with the error code given to the macro; the keys are carried as they are (the
  message prints at most 1024 characters of each).
\<close>

definition bt_col_cursor_key_order_check ::
  "u64 \<Rightarrow> cursor_btree \<Rightarrow> bool \<Rightarrow> fault + int \<times> cursor_btree" where
  "bt_col_cursor_key_order_check oob c next =
     (let cmp0 = (0 :: int);
          cmp1 = (if lastrecno c \<noteq> oob
                  then (let cmp' = (if lastrecno c < recno c then - 1 else cmp0)
                        in if lastrecno c > recno c then 1 else cmp')
                  else cmp0) in
      if lastrecno c = oob \<or> (next \<and> cmp1 < 0) \<or> (\<not> next \<and> cmp1 > 0)
      then Inr (0, c\<lparr>lastrecno := recno c\<rparr>)
      else Inl (Panic EINVAL (OutOfOrderRecno next (lastrecno c) (recno c))))"

definition bt_row_cursor_key_order_check ::
  "env \<Rightarrow> cursor_btree \<Rightarrow> bool \<Rightarrow> fault + int \<times> cursor_btree" where
  "bt_row_cursor_key_order_check e c next =
     (let key = iface_key c in
      case (if length (lastkey c) \<noteq> 0 then wt_compare e (lastkey c) key else (0, 0)) of
        (r, cmp) \<Rightarrow>
          if r \<noteq> 0 then Inr (r, c)
          else if length (lastkey c) = 0 \<or> (next \<and> cmp < 0) \<or> (\<not> next \<and> cmp > 0)
          then (case wt_buf_set e (lastkey c) key of
                  (r', b) \<Rightarrow> Inr (r', c\<lparr>lastkey := b\<rparr>))
          else if wt_scr_alloc e 0 \<noteq> 0 then Inr (wt_scr_alloc e 0, c)
          else if wt_scr_alloc e 1 \<noteq> 0 then Inr (wt_scr_alloc e 1, c)
          else Inl (Panic EINVAL (OutOfOrderKey next (lastkey c) key)))"

definition bt_cursor_key_order_reset :: "u64 \<Rightarrow> cursor_btree \<Rightarrow> cursor_btree" where
  "bt_cursor_key_order_reset oob c = c\<lparr>lastkey := [], lastrecno := oob\<rparr>"

section \<open>Well-formed pages and example states\<close>

text \<open>
  The arrays of a page have one element per entry: \<open>pg_var\<close> on a variable-length
  column-store page, \<open>mod_row_update\<close> (when allocated) on a row-store page.
\<close>

definition var_page_wf :: "wt_page \<Rightarrow> bool" where
  "var_page_wf pg = (length (pg_var pg) = unat (entries pg))"

definition row_page_wf :: "wt_page \<Rightarrow> bool" where
  "row_page_wf pg =
     (case modify pg of
        None \<Rightarrow> True
      | Some m \<Rightarrow>
         (case mod_row_update m of
            None \<Rightarrow> True
          | Some arr \<Rightarrow> length arr = unat (entries pg)))"

text \<open>Replacing the modify structure of the cursor's page, everything else kept.\<close>

definition set_modify :: "page_modify option \<Rightarrow> cv_state \<Rightarrow> cv_state" where
  "set_modify m s =
     s\<lparr>cbt := (cbt s)\<lparr>ref := (ref (cbt s))\<lparr>page := (page (ref (cbt s)))\<lparr>modify := m\<rparr>\<rparr>\<rparr>\<rparr>"

text \<open>Concrete pages, cursors and states for the examples.\<close>

definition mk_page :: "u32 \<Rightarrow> wt_cell list \<Rightarrow> page_modify option \<Rightarrow> wt_page" where
  "mk_page n cells m =
     \<lparr>entries = n, pg_var = cells, modify = m, row_insert_smallest = Some 100\<rparr>"

definition mk_cursor :: "wt_page \<Rightarrow> u64 \<Rightarrow> u64 \<Rightarrow> u32 \<Rightarrow> cursor_btree" where
  "mk_cursor pg base r sl =
     \<lparr>ref = \<lparr>ref_recno = base, page = pg\<rparr>, recno = r, slot = sl, ins = None,
      ins_head = None, flags = {}, row_iteration_slot = 0, iface_key = [],
      lastkey = [], lastrecno = 0\<rparr>"

definition mk_state :: "cursor_btree \<Rightarrow> cv_state" where
  "mk_state c = \<lparr>cbt = c, updp = Some None, valid = False\<rparr>"

text \<open>The update chain of an on-page slot, when the page has one for it.\<close>

definition row_update_chain :: "wt_page \<Rightarrow> u32 \<Rightarrow> wt_update list option" where
  "row_update_chain pg sl =
     (case modify pg of
        None \<Rightarrow> None
      | Some m \<Rightarrow>
         (case mod_row_update m of
            None \<Rightarrow> None
          | Some arr \<Rightarrow> if unat sl < length arr then Some (arr ! unat sl) else None))"

text \<open>
  Example collaborators: a resolver to which the newest update of a chain is visible,
  a resolver that reports a conflict on every chain, and the bytewise comparison of
  two keys, in an environment whose failed copy leaves the buffer as it was.
\<close>

definition ENOMEM :: int where
  "ENOMEM = 12"

definition WT_ROLLBACK :: int where
  "WT_ROLLBACK = - 31800"

definition read_newest :: resolver where
  "read_newest ch = (0, case ch of [] \<Rightarrow> None | u # us \<Rightarrow> Some u)"

definition read_conflict :: resolver where
  "read_conflict ch = (WT_ROLLBACK, None)"

fun lex_cmp :: "item \<Rightarrow> item \<Rightarrow> int" where
  "lex_cmp [] [] = 0"
| "lex_cmp [] (y # ys) = - 1"
| "lex_cmp (x # xs) [] = 1"
| "lex_cmp (x # xs) (y # ys) =
     (if x < y then - 1 else if y < x then 1 else lex_cmp xs ys)"

definition lex_env :: "int \<Rightarrow> int \<Rightarrow> env" where
  "lex_env buf_rc scr_rc =
     \<lparr>wt_compare = (\<lambda>a b. (0, lex_cmp a b)), wt_buf_set_rc = buf_rc,
      wt_buf_set_left = (\<lambda>buf bytes. buf),
      wt_scr_alloc = (\<lambda>i. scr_rc)\<rparr>"

definition upd_standard :: wt_update where
  "upd_standard = \<lparr>upd_type = WT_UPDATE_STANDARD, upd_data = [7]\<rparr>"

definition upd_tombstone :: wt_update where
  "upd_tombstone = \<lparr>upd_type = WT_UPDATE_TOMBSTONE, upd_data = []\<rparr>"

text \<open>
  A variable-length column-store page of three entries whose second cell is a deleted
  record, and a row-store page of three entries: slot 0 updated, slot 1 deleted by a
  tombstone, slot 2 with an empty chain.
\<close>

definition var_page3 :: wt_page where
  "var_page3 = mk_page 3 [Cell WT_CELL_VALUE [1], Cell WT_CELL_DEL [], Cell WT_CELL_VALUE [2]] None"

definition row_page3 :: wt_page where
  "row_page3 =
     mk_page 3 [] (Some \<lparr>mod_row_update = Some [[upd_standard], [upd_tombstone], []]\<rparr>)"

text \<open>Cursors on a slot of the two pages, and a cursor moved onto an insert node.\<close>

definition var_state :: "u32 \<Rightarrow> cv_state" where
  "var_state k = mk_state (mk_cursor var_page3 1 (1 + ucast k) k)"

definition row_state :: "u32 \<Rightarrow> cv_state" where
  "row_state k = mk_state (mk_cursor row_page3 0 0 k)"

definition with_ins :: "addr \<Rightarrow> cv_state \<Rightarrow> cv_state" where
  "with_ins a s = s\<lparr>cbt := (cbt s)\<lparr>ins := Some a\<rparr>\<rparr>"

section \<open>Theorems\<close>

text \<open>
  C7. The Huffman gate: the fixed-length column store refuses every length with
  \<open>EINVAL\<close> and a message; the variable-length column store refuses exactly the
  non-zero lengths; the row store accepts every length. The three functions are
  functions of \<open>len\<close> alone and yield only the return code and the message: there is
  no state for them to change.
\<close>

theorem huffman_gate:
  "fst (bt_col_fix_huffman len) = EINVAL \<and> EINVAL \<noteq> 0
   \<and> snd (bt_col_fix_huffman len) \<noteq> None
   \<and> (fst (bt_col_var_huffman len) = (if len = 0 then 0 else EINVAL))
   \<and> (snd (bt_col_var_huffman len) = None) = (len = 0)
   \<and> bt_row_huffman len = (0, None)"
  by (simp add: bt_col_fix_huffman_def bt_col_var_huffman_def bt_row_huffman_def EINVAL_def)

subsection \<open>Fixed-length column store: the bounds test\<close>

lemma unat_ucast_u32_u64: "unat (ucast (n :: u32) :: u64) = unat n"
proof -
  have "unat n < 2 ^ 32" using unsigned_less [of n] by simp
  then have "unat n < 2 ^ 64" by simp
  then show ?thesis by (simp add: unsigned_ucast_eq take_bit_nat_eq_self)
qed

text \<open>
  C1 (as amended). On a fixed-length column-store page the check returns 0 and sets
  \<open>*valid\<close> exactly when \<open>recno < ref_recno + entries\<close>, the sum taken in 64-bit
  unsigned arithmetic; otherwise \<open>*valid\<close> keeps the caller's value. Only the upper
  bound is tested: there is no comparison of \<open>recno\<close> with the page's first record
  number.
\<close>

theorem col_fix_valid_upper_bound:
  "bt_col_fix_cursor_valid s =
     Inr (0, s\<lparr>valid := valid s \<or>
        recno (cbt s) < ref_recno (ref (cbt s)) + ucast (entries (page (ref (cbt s))))\<rparr>)
   \<and> (recno (cbt s) < ref_recno (ref (cbt s)) + ucast (entries (page (ref (cbt s))))) =
     (unat (recno (cbt s)) <
        (unat (ref_recno (ref (cbt s))) + unat (entries (page (ref (cbt s))))) mod 2 ^ 64)"
proof -
  let ?bound = "ref_recno (ref (cbt s)) + ucast (entries (page (ref (cbt s))))"
  have eq: "(recno (cbt s) < ?bound) = (\<not> ?bound \<le> recno (cbt s))"
    by (simp add: not_le)
  have a: "bt_col_fix_cursor_valid s =
     Inr (0, s\<lparr>valid := valid s \<or> recno (cbt s) < ?bound\<rparr>)"
    unfolding eq by (simp add: bt_col_fix_cursor_valid_def Let_def)
  have b: "(recno (cbt s) < ?bound) =
     (unat (recno (cbt s)) <
        (unat (ref_recno (ref (cbt s))) + unat (entries (page (ref (cbt s))))) mod 2 ^ 64)"
    by (simp add: word_less_nat_alt unat_word_ariths unat_ucast_u32_u64)
  from a b show ?thesis by (rule conjI)
qed

text \<open>
  The claim as stated fails below the page: with first record number 10 and 5 entries,
  record number 3 is reported valid although \<open>10 \<le> 3\<close> is false.
\<close>

theorem col_fix_lower_bound_counterexample:
  "bt_col_fix_cursor_valid (mk_state (mk_cursor (mk_page 5 [] None) 10 3 0))
     = Inr (0, (mk_state (mk_cursor (mk_page 5 [] None) 10 3 0))\<lparr>valid := True\<rparr>)
   \<and> \<not> valid (mk_state (mk_cursor (mk_page 5 [] None) 10 3 0))
   \<and> \<not> ((10 :: u64) \<le> 3 \<and> (3 :: u64) < 10 + ucast (5 :: u32))"
  by (simp add: bt_col_fix_cursor_valid_def mk_state_def mk_cursor_def mk_page_def)

subsection \<open>Row store: the visible update decides\<close>

text \<open>
  C2. Row store, no insert node, a non-empty well-formed page and the cursor on one of
  its slots. If the slot has an update chain and the resolver returns a tombstone as
  the visible update, the check returns 0 and writes nothing (\<open>*valid\<close> stays as the
  caller set it: invalid). If the visible update is not a tombstone, \<open>*valid\<close> is set
  and the update is stored through \<open>updp\<close> (when the caller passed a location for
  it). If the page has no update array, or the resolver finds no visible update,
  \<open>*valid\<close> is set and \<open>*updp\<close> is left as it was. A resolver error is returned
  unchanged, nothing written.
\<close>

theorem row_valid_visible_update:
  assumes "ins (cbt s) = None"
    and "entries (page (ref (cbt s))) \<noteq> 0"
    and "slot (cbt s) < entries (page (ref (cbt s)))"
    and "row_page_wf (page (ref (cbt s)))"
  shows "(row_update_chain (page (ref (cbt s))) (slot (cbt s)) = Some ch \<and>
          txn_read ch = (0, Some u) \<and> upd_type u = WT_UPDATE_TOMBSTONE \<longrightarrow>
            bt_row_cursor_valid diag txn_read s = Inr (0, s))
    \<and> (row_update_chain (page (ref (cbt s))) (slot (cbt s)) = Some ch \<and>
          txn_read ch = (0, Some u) \<and> upd_type u \<noteq> WT_UPDATE_TOMBSTONE \<longrightarrow>
            bt_row_cursor_valid diag txn_read s =
              Inr (0, s\<lparr>updp := (if updp s = None then None else Some (Some u)),
                        valid := True\<rparr>))
    \<and> (row_update_chain (page (ref (cbt s))) (slot (cbt s)) = None \<or>
          (row_update_chain (page (ref (cbt s))) (slot (cbt s)) = Some ch \<and>
           txn_read ch = (0, None)) \<longrightarrow>
            bt_row_cursor_valid diag txn_read s = Inr (0, s\<lparr>valid := True\<rparr>))
    \<and> (row_update_chain (page (ref (cbt s))) (slot (cbt s)) = Some ch \<and>
          fst (txn_read ch) \<noteq> 0 \<longrightarrow>
            bt_row_cursor_valid diag txn_read s = Inr (fst (txn_read ch), s))"
  using assms
  by (auto simp: bt_row_cursor_valid_def Let_def row_page_wf_def row_update_chain_def
      slot_assertion_def word_less_nat_alt split: option.splits prod.splits if_splits)

subsection \<open>Variable-length column store\<close>

text \<open>
  C3. Variable-length column store. An empty page is invalid (return 0, nothing
  written). With the slot assertion holding, a cursor on an insert node without the
  on-page-match flag is invalid. Otherwise, for a cursor on a slot of a well-formed
  page, the cell at the slot decides: a deleted cell is invalid, every other cell sets
  \<open>*valid\<close>.
\<close>

theorem col_var_valid_cases:
  "(entries (page (ref (cbt s))) = 0 \<longrightarrow> bt_col_var_cursor_valid diag s = Inr (0, s))
   \<and> (slot_assertion (cbt s) \<and> ins (cbt s) \<noteq> None \<and>
        WT_CBT_VAR_ONPAGE_MATCH \<notin> flags (cbt s) \<longrightarrow>
        bt_col_var_cursor_valid diag s = Inr (0, s))
   \<and> (var_page_wf (page (ref (cbt s))) \<and>
        slot (cbt s) < entries (page (ref (cbt s))) \<and>
        (ins (cbt s) = None \<or> WT_CBT_VAR_ONPAGE_MATCH \<in> flags (cbt s)) \<longrightarrow>
        bt_col_var_cursor_valid diag s =
          (if wt_cell_type (pg_var (page (ref (cbt s))) ! unat (slot (cbt s))) = WT_CELL_DEL
           then Inr (0, s) else Inr (0, s\<lparr>valid := True\<rparr>)))"
proof -
  have lt: "unat (slot (cbt s)) < length (pg_var (page (ref (cbt s))))
      \<and> entries (page (ref (cbt s))) \<noteq> 0 \<and> slot_assertion (cbt s)"
    if "var_page_wf (page (ref (cbt s)))" "slot (cbt s) < entries (page (ref (cbt s)))"
    using that by (auto simp: var_page_wf_def word_less_nat_alt slot_assertion_def)
  show ?thesis
    using lt by (auto simp: bt_col_var_cursor_valid_def Let_def)
qed

subsection \<open>Row store: an insert node takes precedence\<close>

text \<open>
  C4. Row store, insert node set, the slot assertion holding. Whatever the page's
  modify structure \<open>m\<close>, whatever the resolver and the build, the check returns 0 and
  writes nothing (invalid). So two runs that differ in the modify structure and in the
  resolver end with the same return code and the same outputs; and since the result
  is 0 also for a resolver that fails on every chain, whose error \<open>WT_RET\<close> would
  return, the resolver is not called.
\<close>

theorem row_valid_insert_precedence:
  assumes "ins (cbt s) \<noteq> None"
    and "slot_assertion (cbt s)"
  shows "bt_row_cursor_valid diag txn_read (set_modify m s) = Inr (0, set_modify m s)
    \<and> map_sum id (map_prod id (\<lambda>t. (valid t, updp t)))
          (bt_row_cursor_valid diag txn_read (set_modify m s))
        = map_sum id (map_prod id (\<lambda>t. (valid t, updp t)))
          (bt_row_cursor_valid diag' txn_read' (set_modify m' s))
    \<and> bt_row_cursor_valid diag read_conflict (set_modify m s) = Inr (0, set_modify m s)"
  using assms
  by (auto simp: bt_row_cursor_valid_def Let_def set_modify_def slot_assertion_def)

subsection \<open>Key-order checks\<close>

lemma col_check_cases:
  "bt_col_cursor_key_order_check oob c next =
     (if lastrecno c = oob \<or> (next \<and> lastrecno c < recno c)
         \<or> (\<not> next \<and> recno c < lastrecno c)
      then Inr (0, c\<lparr>lastrecno := recno c\<rparr>)
      else Inl (Panic EINVAL (OutOfOrderRecno next (lastrecno c) (recno c))))"
  by (auto simp: bt_col_cursor_key_order_check_def Let_def)

lemma row_check_compare_error:
  assumes "lastkey c \<noteq> []" and "fst (wt_compare e (lastkey c) (iface_key c)) \<noteq> 0"
  shows "bt_row_cursor_key_order_check e c next =
     Inr (fst (wt_compare e (lastkey c) (iface_key c)), c)"
  using assms
  by (cases "wt_compare e (lastkey c) (iface_key c)")
    (simp add: bt_row_cursor_key_order_check_def Let_def)

lemma row_check_in_order:
  assumes "lastkey c = [] \<or> fst (wt_compare e (lastkey c) (iface_key c)) = 0"
    and "lastkey c = [] \<or> (next \<and> snd (wt_compare e (lastkey c) (iface_key c)) < 0)
         \<or> (\<not> next \<and> 0 < snd (wt_compare e (lastkey c) (iface_key c)))"
  shows "bt_row_cursor_key_order_check e c next =
     (if wt_buf_set_rc e = 0 then Inr (0, c\<lparr>lastkey := iface_key c\<rparr>)
      else Inr (wt_buf_set_rc e,
        c\<lparr>lastkey := wt_buf_set_left e (lastkey c) (iface_key c)\<rparr>))"
  using assms
  by (cases "wt_compare e (lastkey c) (iface_key c)")
    (auto simp: bt_row_cursor_key_order_check_def Let_def wt_buf_set_def)

lemma row_check_out_of_order:
  assumes "lastkey c = [] \<or> fst (wt_compare e (lastkey c) (iface_key c)) = 0"
    and "\<not> (lastkey c = [] \<or> (next \<and> snd (wt_compare e (lastkey c) (iface_key c)) < 0)
         \<or> (\<not> next \<and> 0 < snd (wt_compare e (lastkey c) (iface_key c))))"
  shows "bt_row_cursor_key_order_check e c next =
     (if wt_scr_alloc e 0 \<noteq> 0 then Inr (wt_scr_alloc e 0, c)
      else if wt_scr_alloc e 1 \<noteq> 0 then Inr (wt_scr_alloc e 1, c)
      else Inl (Panic EINVAL (OutOfOrderKey next (lastkey c) (iface_key c))))"
  using assms
  by (cases "wt_compare e (lastkey c) (iface_key c)")
    (auto simp: bt_row_cursor_key_order_check_def Let_def)

text \<open>
  C5 (as amended). The column-store check returns 0 and makes the current record number
  the baseline exactly when the baseline is \<open>WT_RECNO_OOB\<close>, or it is strictly below
  the current record number (forward), or strictly above it (backward); in every other
  case, equality included, it panics with \<open>EINVAL\<close>, the direction and the two record
  numbers. The row-store check decides in the same way on the comparator's result, and
  returns the error of a collaborator that fails: the comparator's error, the cursor
  unchanged, when the comparison of a non-empty baseline fails; in order (or without
  baseline), 0 with the current key as the baseline when the copy of the key succeeds
  and the copy's error code when it fails; out of order, the panic with \<open>EINVAL\<close>, the
  direction and the two keys when both scratch allocations succeed, and otherwise the
  error code of the first allocation that fails, the cursor unchanged.
\<close>

theorem key_order_check_outcome:
  "bt_col_cursor_key_order_check oob c next =
     (if lastrecno c = oob \<or> (next \<and> lastrecno c < recno c)
         \<or> (\<not> next \<and> recno c < lastrecno c)
      then Inr (0, c\<lparr>lastrecno := recno c\<rparr>)
      else Inl (Panic EINVAL (OutOfOrderRecno next (lastrecno c) (recno c))))
   \<and> (lastkey c \<noteq> [] \<and> fst (wt_compare e (lastkey c) (iface_key c)) \<noteq> 0 \<longrightarrow>
       bt_row_cursor_key_order_check e c next =
         Inr (fst (wt_compare e (lastkey c) (iface_key c)), c))
   \<and> ((lastkey c = [] \<or> fst (wt_compare e (lastkey c) (iface_key c)) = 0) \<and>
       (lastkey c = [] \<or> (next \<and> snd (wt_compare e (lastkey c) (iface_key c)) < 0)
         \<or> (\<not> next \<and> 0 < snd (wt_compare e (lastkey c) (iface_key c)))) \<longrightarrow>
       (wt_buf_set_rc e = 0 \<longrightarrow>
          bt_row_cursor_key_order_check e c next = Inr (0, c\<lparr>lastkey := iface_key c\<rparr>))
       \<and> (wt_buf_set_rc e \<noteq> 0 \<longrightarrow>
          map_sum id fst (bt_row_cursor_key_order_check e c next) = Inr (wt_buf_set_rc e)))
   \<and> ((lastkey c = [] \<or> fst (wt_compare e (lastkey c) (iface_key c)) = 0) \<and>
       \<not> (lastkey c = [] \<or> (next \<and> snd (wt_compare e (lastkey c) (iface_key c)) < 0)
         \<or> (\<not> next \<and> 0 < snd (wt_compare e (lastkey c) (iface_key c)))) \<longrightarrow>
       bt_row_cursor_key_order_check e c next =
         (if wt_scr_alloc e 0 \<noteq> 0 then Inr (wt_scr_alloc e 0, c)
          else if wt_scr_alloc e 1 \<noteq> 0 then Inr (wt_scr_alloc e 1, c)
          else Inl (Panic EINVAL (OutOfOrderKey next (lastkey c) (iface_key c)))))"
proof -
  have ok: "(wt_buf_set_rc e = 0 \<longrightarrow>
          bt_row_cursor_key_order_check e c next = Inr (0, c\<lparr>lastkey := iface_key c\<rparr>))
       \<and> (wt_buf_set_rc e \<noteq> 0 \<longrightarrow>
          map_sum id fst (bt_row_cursor_key_order_check e c next) = Inr (wt_buf_set_rc e))"
    if "lastkey c = [] \<or> fst (wt_compare e (lastkey c) (iface_key c)) = 0"
      "lastkey c = [] \<or> (next \<and> snd (wt_compare e (lastkey c) (iface_key c)) < 0)
         \<or> (\<not> next \<and> 0 < snd (wt_compare e (lastkey c) (iface_key c)))"
    by (simp add: row_check_in_order [OF that])
  show ?thesis
    using col_check_cases row_check_compare_error row_check_out_of_order ok
    by (intro conjI impI) blast+
qed

text \<open>
  The claim as stated fails in the row store when a scratch allocation fails: the
  baseline \<open>[1]\<close> and the key \<open>[1]\<close> compare equal on a forward step, and the check
  returns the allocation's error code instead of the panic.
\<close>

theorem row_check_scratch_failure_counterexample:
  "bt_row_cursor_key_order_check (lex_env 0 ENOMEM)
      ((mk_cursor (mk_page 1 [] None) 0 0 0)\<lparr>iface_key := [1], lastkey := [1]\<rparr>) True
     = Inr (ENOMEM, (mk_cursor (mk_page 1 [] None) 0 0 0)\<lparr>iface_key := [1], lastkey := [1]\<rparr>)
   \<and> ENOMEM \<noteq> 0
   \<and> wt_compare (lex_env 0 ENOMEM) [1] [1] = (0, 0)"
  by (simp add: bt_row_cursor_key_order_check_def lex_env_def mk_cursor_def mk_page_def
      ENOMEM_def Let_def)

text \<open>
  C8 (as amended). After the reset, the column-store check returns 0 for every cursor
  and direction and makes the current record number the baseline. The row-store check
  after the reset never ends in a fault; it returns 0 and makes the current key the
  baseline when the copy of the key into the baseline buffer succeeds, and returns the
  copy's error code when it fails.
\<close>

theorem reset_then_check:
  "bt_col_cursor_key_order_check oob (bt_cursor_key_order_reset oob c) next
     = Inr (0, (bt_cursor_key_order_reset oob c)\<lparr>lastrecno := recno c\<rparr>)
   \<and> bt_row_cursor_key_order_check e (bt_cursor_key_order_reset oob c) next \<noteq> Inl f
   \<and> (wt_buf_set_rc e = 0 \<longrightarrow>
       bt_row_cursor_key_order_check e (bt_cursor_key_order_reset oob c) next
         = Inr (0, (bt_cursor_key_order_reset oob c)\<lparr>lastkey := iface_key c\<rparr>))
   \<and> (wt_buf_set_rc e \<noteq> 0 \<longrightarrow>
       map_sum id fst
         (bt_row_cursor_key_order_check e (bt_cursor_key_order_reset oob c) next)
         = Inr (wt_buf_set_rc e))"
  by (simp add: bt_col_cursor_key_order_check_def bt_row_cursor_key_order_check_def
      bt_cursor_key_order_reset_def Let_def wt_buf_set_def)

text \<open>
  The claim as stated fails in the row store when the copy into the baseline buffer
  fails: the check that follows the reset returns the copy's error code instead of 0,
  whether the failed copy leaves the buffer as it was or with the new bytes.
\<close>

theorem reset_then_check_copy_failure_counterexample:
  "map_sum id fst
     (bt_row_cursor_key_order_check (lex_env ENOMEM 0)
        (bt_cursor_key_order_reset 0
          ((mk_cursor (mk_page 1 [] None) 0 0 0)\<lparr>iface_key := [1], lastkey := [5]\<rparr>)) True)
     = Inr ENOMEM
   \<and> map_sum id fst
     (bt_row_cursor_key_order_check
        ((lex_env ENOMEM 0)\<lparr>wt_buf_set_left := (\<lambda>buf bytes. bytes)\<rparr>)
        (bt_cursor_key_order_reset 0
          ((mk_cursor (mk_page 1 [] None) 0 0 0)\<lparr>iface_key := [1], lastkey := [5]\<rparr>)) True)
     = Inr ENOMEM
   \<and> ENOMEM \<noteq> 0"
  by (simp add: bt_row_cursor_key_order_check_def bt_cursor_key_order_reset_def lex_env_def
      mk_cursor_def mk_page_def ENOMEM_def Let_def wt_buf_set_def)

subsection \<open>Row store: the logical slot\<close>

lemma setup_slot:
  "row_iteration_slot (bt_row_cursor_iterate_setup c) =
     (case row_position_of c of
        OnPage s \<Rightarrow> (s + 1) * 2
      | SmallestList \<Rightarrow> 1
      | InsertList s \<Rightarrow> (s + 1) * 2 + 1)"
  by (simp add: bt_row_cursor_iterate_setup_def row_position_of_def Let_def)

lemma unat_double:
  assumes "unat (s :: u32) < 2 ^ 31 - 1"
  shows "unat ((s + 1) * 2) = (unat s + 1) * 2"
    and "unat ((s + 1) * 2 + 1) = (unat s + 1) * 2 + 1"
  using assms by (simp_all add: unat_word_ariths)

lemma even_unat_u32: "even (unat (w :: u32)) = even w"
  by transfer (simp add: even_nat_iff)

text \<open>
  C6 (as amended). The setup gives the logical slot \<open>(s + 1) * 2\<close> to a cursor on slot
  \<open>s\<close> with no insert-list head, 1 to a cursor whose head is the smallest-key insert
  list, and \<open>(s + 1) * 2 + 1\<close> to a cursor with any other head, in 32-bit arithmetic;
  the logical slot is even exactly when there is no insert-list head. For slots below
  \<open>2 ^ 31 - 1\<close> the arithmetic does not wrap, and there two cursors that receive the
  same logical slot are at the same position.
\<close>

theorem row_logical_slot:
  "row_iteration_slot (bt_row_cursor_iterate_setup c) =
     (case row_position_of c of
        OnPage s \<Rightarrow> (s + 1) * 2
      | SmallestList \<Rightarrow> 1
      | InsertList s \<Rightarrow> (s + 1) * 2 + 1)
   \<and> even (unat (row_iteration_slot (bt_row_cursor_iterate_setup c))) = (ins_head c = None)
   \<and> (unat (slot c) < 2 ^ 31 - 1 \<longrightarrow>
        unat (row_iteration_slot (bt_row_cursor_iterate_setup c)) =
          (case row_position_of c of
             OnPage s \<Rightarrow> (unat s + 1) * 2
           | SmallestList \<Rightarrow> 1
           | InsertList s \<Rightarrow> (unat s + 1) * 2 + 1))
   \<and> (unat (slot c) < 2 ^ 31 - 1 \<and> unat (slot c') < 2 ^ 31 - 1 \<and>
        row_iteration_slot (bt_row_cursor_iterate_setup c)
          = row_iteration_slot (bt_row_cursor_iterate_setup c') \<longrightarrow>
        row_position_of c = row_position_of c')"
proof -
  have a: "row_iteration_slot (bt_row_cursor_iterate_setup c) =
     (case row_position_of c of
        OnPage s \<Rightarrow> (s + 1) * 2
      | SmallestList \<Rightarrow> 1
      | InsertList s \<Rightarrow> (s + 1) * 2 + 1)"
    by (rule setup_slot)
  have b: "even (unat (row_iteration_slot (bt_row_cursor_iterate_setup c))) = (ins_head c = None)"
    by (simp add: setup_slot row_position_of_def even_unat_u32)
  have n: "unat (row_iteration_slot (bt_row_cursor_iterate_setup d)) =
          (case row_position_of d of
             OnPage s \<Rightarrow> (unat s + 1) * 2
           | SmallestList \<Rightarrow> 1
           | InsertList s \<Rightarrow> (unat s + 1) * 2 + 1)"
    if h: "unat (slot d) < 2 ^ 31 - 1" for d
    using unat_double [OF h] by (simp add: setup_slot row_position_of_def)
  have inj: "row_position_of c = row_position_of c'"
    if "unat (slot c) < 2 ^ 31 - 1" "unat (slot c') < 2 ^ 31 - 1"
      "row_iteration_slot (bt_row_cursor_iterate_setup c)
          = row_iteration_slot (bt_row_cursor_iterate_setup c')"
  proof -
    from that(3) have "unat (row_iteration_slot (bt_row_cursor_iterate_setup c))
       = unat (row_iteration_slot (bt_row_cursor_iterate_setup c'))" by simp
    then show ?thesis
      unfolding n [OF that(1)] n [OF that(2)]
      by (auto simp: row_position_of_def word_unat_eq_iff split: if_splits)
        (presburger | metis)+
  qed
  from a b n [of c] inj show ?thesis by blast
qed

text \<open>
  The claim as stated fails where the 32-bit arithmetic wraps: the on-page slots 0 and
  \<open>2 ^ 31\<close> both receive the logical slot 2, and a cursor with the slot
  \<open>UINT32_MAX\<close> on an insert list other than the smallest-key one receives the
  logical slot 1 of the smallest-key list.
\<close>

theorem row_logical_slot_wrap_counterexample:
  "row_iteration_slot (bt_row_cursor_iterate_setup (mk_cursor (mk_page 1 [] None) 0 0 0)) = 2
   \<and> row_iteration_slot
       (bt_row_cursor_iterate_setup (mk_cursor (mk_page 1 [] None) 0 0 0x80000000)) = 2
   \<and> row_position_of (mk_cursor (mk_page 1 [] None) 0 0 0) = OnPage 0
   \<and> row_position_of (mk_cursor (mk_page 1 [] None) 0 0 0x80000000) = OnPage 0x80000000
   \<and> (0 :: u32) \<noteq> 0x80000000
   \<and> row_iteration_slot (bt_row_cursor_iterate_setup
        ((mk_cursor (mk_page 1 [] None) 0 0 UINT32_MAX)\<lparr>ins_head := Some 7\<rparr>)) = 1
   \<and> row_position_of ((mk_cursor (mk_page 1 [] None) 0 0 UINT32_MAX)\<lparr>ins_head := Some 7\<rparr>)
       = InsertList UINT32_MAX
   \<and> row_iteration_slot (bt_row_cursor_iterate_setup
        ((mk_cursor (mk_page 1 [] None) 0 0 0)\<lparr>ins_head := Some 100\<rparr>)) = 1
   \<and> row_position_of ((mk_cursor (mk_page 1 [] None) 0 0 0)\<lparr>ins_head := Some 100\<rparr>)
       = SmallestList"
  by (simp add: bt_row_cursor_iterate_setup_def row_position_of_def mk_cursor_def mk_page_def
      UINT32_MAX_def Let_def)

subsection \<open>What the validity checks write\<close>


subsection \<open>The slot as an array index\<close>

lemma sentinel_not_less: "\<not> UINT32_MAX < (n :: u32)"
proof -
  have "unat n < 2 ^ 32" using unsigned_less [of n] by simp
  then show ?thesis by (simp add: UINT32_MAX_def word_less_nat_alt)
qed

text \<open>
  C10. On a well-formed page, once a call reaches the array read (variable-length
  column store: the page is not empty and there is no insert node or the on-page-match
  flag is set; row store: the page is not empty, there is no insert node and the
  update array is allocated), the read is outside the array exactly when the slot is
  not below \<open>entries\<close> and the assertion let it through; so \<open>slot < entries\<close> is what
  keeps the read in bounds. The assertion holds for the slot \<open>UINT32_MAX\<close>, which is
  never below \<open>entries\<close>: a cursor that reaches the read with it reads outside the
  array, in a diagnostic build too.
\<close>

theorem slot_read_in_bounds:
  "(var_page_wf (page (ref (cbt s))) \<and> entries (page (ref (cbt s))) \<noteq> 0 \<and>
      (ins (cbt s) = None \<or> WT_CBT_VAR_ONPAGE_MATCH \<in> flags (cbt s)) \<longrightarrow>
        (bt_col_var_cursor_valid diag s = Inl OutOfBounds) =
          (\<not> slot (cbt s) < entries (page (ref (cbt s))) \<and>
           (diag \<longrightarrow> slot (cbt s) = UINT32_MAX))
        \<and> (slot (cbt s) = UINT32_MAX \<longrightarrow>
             slot_assertion (cbt s) \<and> bt_col_var_cursor_valid diag s = Inl OutOfBounds))
   \<and> (row_page_wf (page (ref (cbt s))) \<and> entries (page (ref (cbt s))) \<noteq> 0 \<and>
      ins (cbt s) = None \<and> modify (page (ref (cbt s))) = Some m \<and>
      mod_row_update m = Some arr \<longrightarrow>
        (bt_row_cursor_valid diag txn_read s = Inl OutOfBounds) =
          (\<not> slot (cbt s) < entries (page (ref (cbt s))) \<and>
           (diag \<longrightarrow> slot (cbt s) = UINT32_MAX))
        \<and> (slot (cbt s) = UINT32_MAX \<longrightarrow>
             slot_assertion (cbt s) \<and> bt_row_cursor_valid diag txn_read s = Inl OutOfBounds))"
proof -
  have var: "(bt_col_var_cursor_valid diag s = Inl OutOfBounds) =
          (\<not> slot (cbt s) < entries (page (ref (cbt s))) \<and>
           (diag \<longrightarrow> slot (cbt s) = UINT32_MAX))"
    if "var_page_wf (page (ref (cbt s)))" "entries (page (ref (cbt s))) \<noteq> 0"
      "ins (cbt s) = None \<or> WT_CBT_VAR_ONPAGE_MATCH \<in> flags (cbt s)"
    using that sentinel_not_less [of "entries (page (ref (cbt s)))"]
    by (auto simp: bt_col_var_cursor_valid_def Let_def var_page_wf_def slot_assertion_def
        word_less_nat_alt)
  have row: "(bt_row_cursor_valid diag txn_read s = Inl OutOfBounds) =
          (\<not> slot (cbt s) < entries (page (ref (cbt s))) \<and>
           (diag \<longrightarrow> slot (cbt s) = UINT32_MAX))"
    if "row_page_wf (page (ref (cbt s)))" "entries (page (ref (cbt s))) \<noteq> 0"
      "ins (cbt s) = None" "modify (page (ref (cbt s))) = Some m" "mod_row_update m = Some arr"
    using that sentinel_not_less [of "entries (page (ref (cbt s)))"]
    by (auto simp: bt_row_cursor_valid_def Let_def row_page_wf_def slot_assertion_def
        word_less_nat_alt split: prod.splits option.splits)
  have sa: "slot (cbt s) = UINT32_MAX \<Longrightarrow> slot_assertion (cbt s)"
    by (simp add: slot_assertion_def)
  have nl: "slot (cbt s) = UINT32_MAX \<Longrightarrow> \<not> slot (cbt s) < entries (page (ref (cbt s)))"
    using sentinel_not_less by simp
  from var row sa nl show ?thesis by blast
qed

subsection \<open>The theorems at concrete cursors\<close>

lemmas example_defs =
  mk_page_def mk_cursor_def mk_state_def var_page3_def row_page3_def var_state_def
  row_state_def with_ins_def upd_standard_def upd_tombstone_def read_newest_def
  read_conflict_def lex_env_def UINT32_MAX_def ENOMEM_def WT_ROLLBACK_def

text \<open>
  On the row-store page: slot 1 carries a tombstone and is invalid, slot 0 carries an
  update, which is returned, slot 2 has no visible update, and a conflict reported by
  the resolver is returned as it is.
\<close>

theorem row_valid_visible_update_witness:
  "ins (cbt (row_state 1)) = None
   \<and> entries (page (ref (cbt (row_state 1)))) \<noteq> 0
   \<and> slot (cbt (row_state 1)) < entries (page (ref (cbt (row_state 1))))
   \<and> row_page_wf (page (ref (cbt (row_state 1))))
   \<and> bt_row_cursor_valid True read_newest (row_state 1) = Inr (0, row_state 1)
   \<and> bt_row_cursor_valid True read_newest (row_state 0)
       = Inr (0, (row_state 0)\<lparr>updp := Some (Some upd_standard), valid := True\<rparr>)
   \<and> bt_row_cursor_valid True read_newest (row_state 2)
       = Inr (0, (row_state 2)\<lparr>valid := True\<rparr>)
   \<and> bt_row_cursor_valid True read_conflict (row_state 0) = Inr (WT_ROLLBACK, row_state 0)"
proof -
  have h: "ins (cbt (row_state k)) = None" "entries (page (ref (cbt (row_state k)))) \<noteq> 0"
    "row_page_wf (page (ref (cbt (row_state k))))" for k
    by (simp_all add: example_defs row_page_wf_def)
  have l: "slot (cbt (row_state 0)) < entries (page (ref (cbt (row_state 0))))"
    "slot (cbt (row_state 1)) < entries (page (ref (cbt (row_state 1))))"
    "slot (cbt (row_state 2)) < entries (page (ref (cbt (row_state 2))))"
    by (simp_all add: example_defs)
  have r1: "bt_row_cursor_valid True read_newest (row_state 1) = Inr (0, row_state 1)"
    using row_valid_visible_update [OF h(1) h(2) l(2) h(3), where ch = "[upd_tombstone]"
        and u = upd_tombstone and txn_read = read_newest and diag = True]
    by (simp add: example_defs row_update_chain_def)
  have r0: "bt_row_cursor_valid True read_newest (row_state 0)
       = Inr (0, (row_state 0)\<lparr>updp := Some (Some upd_standard), valid := True\<rparr>)"
    using row_valid_visible_update [OF h(1) h(2) l(1) h(3), where ch = "[upd_standard]"
        and u = upd_standard and txn_read = read_newest and diag = True]
    by (simp add: example_defs row_update_chain_def)
  have r2: "bt_row_cursor_valid True read_newest (row_state 2)
       = Inr (0, (row_state 2)\<lparr>valid := True\<rparr>)"
    using row_valid_visible_update [OF h(1) h(2) l(3) h(3), where ch = "[]"
        and txn_read = read_newest and diag = True]
    by (simp add: example_defs row_update_chain_def)
  have r3: "bt_row_cursor_valid True read_conflict (row_state 0) = Inr (WT_ROLLBACK, row_state 0)"
    using row_valid_visible_update [OF h(1) h(2) l(1) h(3), where ch = "[upd_standard]"
        and txn_read = read_conflict and diag = True]
    by (simp add: example_defs row_update_chain_def)
  from h [of 1] l(2) r1 r0 r2 r3 show ?thesis by simp
qed

text \<open>
  On the column-store page of three entries with the second one deleted: slot 0 is
  valid, slot 1 invalid, slot 2 valid; an empty page is invalid, and so is a cursor on
  an insert node without the on-page-match flag.
\<close>

theorem col_var_valid_cases_witness:
  "var_page_wf (page (ref (cbt (var_state 0))))
   \<and> bt_col_var_cursor_valid True (var_state 0) = Inr (0, (var_state 0)\<lparr>valid := True\<rparr>)
   \<and> bt_col_var_cursor_valid True (var_state 1) = Inr (0, var_state 1)
   \<and> bt_col_var_cursor_valid True (var_state 2) = Inr (0, (var_state 2)\<lparr>valid := True\<rparr>)
   \<and> bt_col_var_cursor_valid True (mk_state (mk_cursor (mk_page 0 [] None) 1 1 0))
       = Inr (0, mk_state (mk_cursor (mk_page 0 [] None) 1 1 0))
   \<and> bt_col_var_cursor_valid True (with_ins 9 (var_state 0)) = Inr (0, with_ins 9 (var_state 0))"
proof -
  have wf: "var_page_wf (page (ref (cbt (var_state k))))" for k
    by (simp add: example_defs var_page_wf_def)
  have r0: "bt_col_var_cursor_valid True (var_state 0) = Inr (0, (var_state 0)\<lparr>valid := True\<rparr>)"
    using col_var_valid_cases [of "var_state 0" True] wf [of 0] by (simp add: example_defs)
  have r1: "bt_col_var_cursor_valid True (var_state 1) = Inr (0, var_state 1)"
    using col_var_valid_cases [of "var_state 1" True] wf [of 1] by (simp add: example_defs)
  have r2: "bt_col_var_cursor_valid True (var_state 2) = Inr (0, (var_state 2)\<lparr>valid := True\<rparr>)"
    using col_var_valid_cases [of "var_state 2" True] wf [of 2] by (simp add: example_defs)
  have r3: "bt_col_var_cursor_valid True (mk_state (mk_cursor (mk_page 0 [] None) 1 1 0))
       = Inr (0, mk_state (mk_cursor (mk_page 0 [] None) 1 1 0))"
    using col_var_valid_cases [of "mk_state (mk_cursor (mk_page 0 [] None) 1 1 0)" True] by (simp add: example_defs)
  have r4: "bt_col_var_cursor_valid True (with_ins 9 (var_state 0))
       = Inr (0, with_ins 9 (var_state 0))"
    using col_var_valid_cases [of "with_ins 9 (var_state 0)" True]
    by (simp add: example_defs slot_assertion_def)
  from wf [of 0] r0 r1 r2 r3 r4 show ?thesis by simp
qed

text \<open>
  A cursor on an insert node over slot 1 of the row-store page: invalid with the
  page's update chains as they are and with none, for a resolver that answers and for
  one that reports a conflict.
\<close>

theorem row_valid_insert_precedence_witness:
  "ins (cbt (with_ins 9 (row_state 1))) \<noteq> None
   \<and> slot_assertion (cbt (with_ins 9 (row_state 1)))
   \<and> bt_row_cursor_valid True read_newest (set_modify None (with_ins 9 (row_state 1)))
       = Inr (0, set_modify None (with_ins 9 (row_state 1)))
   \<and> bt_row_cursor_valid True read_conflict (with_ins 9 (row_state 1))
       = Inr (0, with_ins 9 (row_state 1))"
proof -
  have h1: "ins (cbt (with_ins 9 (row_state 1))) \<noteq> None"
    by (simp add: example_defs)
  have h2: "slot_assertion (cbt (with_ins 9 (row_state 1)))"
    by (simp add: example_defs slot_assertion_def)
  have e: "set_modify (modify row_page3) (with_ins 9 (row_state 1)) = with_ins 9 (row_state 1)"
    by (simp add: example_defs set_modify_def)
  have r1: "bt_row_cursor_valid True read_newest (set_modify None (with_ins 9 (row_state 1)))
       = Inr (0, set_modify None (with_ins 9 (row_state 1)))"
    using row_valid_insert_precedence [OF h1 h2, of True read_newest None] by simp
  have r2: "bt_row_cursor_valid True read_conflict (with_ins 9 (row_state 1))
       = Inr (0, with_ins 9 (row_state 1))"
    using row_valid_insert_precedence [OF h1 h2, of True read_newest "modify row_page3"]
    by (simp add: e)
  from h1 h2 r1 r2 show ?thesis by simp
qed

text \<open>
  Record number 10 returned twice by a forward step panics. In the row store the key
  \<open>[2]\<close> after \<open>[1]\<close> passes forward and becomes the baseline when the copy
  succeeds, and the copy's error code comes back when it fails; the key \<open>[1]\<close> after
  \<open>[1]\<close> panics when the scratch allocations succeed, and the allocation's error
  code comes back when they fail, as a comparator's error does.
\<close>

theorem key_order_check_outcome_witness:
  "bt_col_cursor_key_order_check 0 ((mk_cursor (mk_page 1 [] None) 1 10 0)\<lparr>lastrecno := 10\<rparr>) True
     = Inl (Panic EINVAL (OutOfOrderRecno True 10 10))
   \<and> bt_row_cursor_key_order_check (lex_env 0 0)
        ((mk_cursor (mk_page 1 [] None) 0 0 0)\<lparr>iface_key := [2], lastkey := [1]\<rparr>) True
       = Inr (0, (mk_cursor (mk_page 1 [] None) 0 0 0)\<lparr>iface_key := [2], lastkey := [2]\<rparr>)
   \<and> map_sum id fst (bt_row_cursor_key_order_check (lex_env ENOMEM 0)
        ((mk_cursor (mk_page 1 [] None) 0 0 0)\<lparr>iface_key := [2], lastkey := [1]\<rparr>) True)
       = Inr ENOMEM
   \<and> bt_row_cursor_key_order_check (lex_env 0 0)
        ((mk_cursor (mk_page 1 [] None) 0 0 0)\<lparr>iface_key := [1], lastkey := [1]\<rparr>) True
       = Inl (Panic EINVAL (OutOfOrderKey True [1] [1]))
   \<and> bt_row_cursor_key_order_check (lex_env 0 ENOMEM)
        ((mk_cursor (mk_page 1 [] None) 0 0 0)\<lparr>iface_key := [1], lastkey := [1]\<rparr>) True
       = Inr (ENOMEM, (mk_cursor (mk_page 1 [] None) 0 0 0)\<lparr>iface_key := [1], lastkey := [1]\<rparr>)
   \<and> bt_row_cursor_key_order_check
        ((lex_env 0 0)\<lparr>wt_compare := (\<lambda>a b. (EINVAL, 0))\<rparr>)
        ((mk_cursor (mk_page 1 [] None) 0 0 0)\<lparr>iface_key := [2], lastkey := [1]\<rparr>) True
       = Inr (EINVAL, (mk_cursor (mk_page 1 [] None) 0 0 0)\<lparr>iface_key := [2], lastkey := [1]\<rparr>)"
proof -
  let ?c = "(mk_cursor (mk_page 1 [] None) 1 10 0)\<lparr>lastrecno := 10\<rparr>"
  let ?a = "(mk_cursor (mk_page 1 [] None) 0 0 0)\<lparr>iface_key := [2], lastkey := [1]\<rparr>"
  let ?b = "(mk_cursor (mk_page 1 [] None) 0 0 0)\<lparr>iface_key := [1], lastkey := [1]\<rparr>"
  have r1: "bt_col_cursor_key_order_check 0 ?c True = Inl (Panic EINVAL (OutOfOrderRecno True 10 10))"
    using key_order_check_outcome [where oob = 0 and c = ?c and ?next = True]
    by (simp add: example_defs)
  have r2: "bt_row_cursor_key_order_check (lex_env 0 0) ?a True
       = Inr (0, (mk_cursor (mk_page 1 [] None) 0 0 0)\<lparr>iface_key := [2], lastkey := [2]\<rparr>)"
    using key_order_check_outcome [where e = "lex_env 0 0" and c = ?a and ?next = True]
    by (simp add: example_defs)
  have r3: "map_sum id fst (bt_row_cursor_key_order_check (lex_env ENOMEM 0) ?a True) = Inr ENOMEM"
    using key_order_check_outcome [where e = "lex_env ENOMEM 0" and c = ?a and ?next = True]
    by (simp add: example_defs)
  have r4: "bt_row_cursor_key_order_check (lex_env 0 0) ?b True
       = Inl (Panic EINVAL (OutOfOrderKey True [1] [1]))"
    using key_order_check_outcome [where e = "lex_env 0 0" and c = ?b and ?next = True]
    by (simp add: example_defs)
  have r5: "bt_row_cursor_key_order_check (lex_env 0 ENOMEM) ?b True = Inr (ENOMEM, ?b)"
    using key_order_check_outcome [where e = "lex_env 0 ENOMEM" and c = ?b and ?next = True]
    by (simp add: example_defs)
  have r6: "bt_row_cursor_key_order_check
        ((lex_env 0 0)\<lparr>wt_compare := (\<lambda>a b. (EINVAL, 0))\<rparr>) ?a True = Inr (EINVAL, ?a)"
    using key_order_check_outcome [where e = "(lex_env 0 0)\<lparr>wt_compare := (\<lambda>a b. (EINVAL, 0))\<rparr>"
        and c = ?a and ?next = True]
    by (simp add: example_defs EINVAL_def)
  from r1 r2 r3 r4 r5 r6 show ?thesis by simp
qed

text \<open>
  After the reset a forward step from baseline 7 to record number 3, and from the key
  \<open>[5]\<close> to the key \<open>[1]\<close>, passes and installs the new baseline; when the copy of
  the key fails its error code is returned.
\<close>

theorem reset_then_check_witness:
  "wt_buf_set_rc (lex_env 0 0) = 0
   \<and> bt_row_cursor_key_order_check (lex_env 0 0)
        (bt_cursor_key_order_reset 0
          ((mk_cursor (mk_page 1 [] None) 1 3 0)\<lparr>iface_key := [1], lastkey := [5], lastrecno := 7\<rparr>))
        True
       = Inr (0, (mk_cursor (mk_page 1 [] None) 1 3 0)\<lparr>iface_key := [1], lastkey := [1], lastrecno := 0\<rparr>)
   \<and> bt_col_cursor_key_order_check 0
        (bt_cursor_key_order_reset 0
          ((mk_cursor (mk_page 1 [] None) 1 3 0)\<lparr>iface_key := [1], lastkey := [5], lastrecno := 7\<rparr>))
        True
       = Inr (0, (mk_cursor (mk_page 1 [] None) 1 3 0)\<lparr>iface_key := [1], lastkey := [], lastrecno := 3\<rparr>)
   \<and> wt_buf_set_rc (lex_env ENOMEM 0) \<noteq> 0
   \<and> map_sum id fst (bt_row_cursor_key_order_check (lex_env ENOMEM 0)
        (bt_cursor_key_order_reset 0
          ((mk_cursor (mk_page 1 [] None) 1 3 0)\<lparr>iface_key := [1], lastkey := [5], lastrecno := 7\<rparr>))
        True)
       = Inr ENOMEM"
proof -
  let ?c = "(mk_cursor (mk_page 1 [] None) 1 3 0)\<lparr>iface_key := [1], lastkey := [5], lastrecno := 7\<rparr>"
  have h1: "wt_buf_set_rc (lex_env 0 0) = 0" and h2: "wt_buf_set_rc (lex_env ENOMEM 0) \<noteq> 0"
    by (simp_all add: example_defs)
  have r1: "bt_row_cursor_key_order_check (lex_env 0 0) (bt_cursor_key_order_reset 0 ?c) True
       = Inr (0, (mk_cursor (mk_page 1 [] None) 1 3 0)\<lparr>iface_key := [1], lastkey := [1], lastrecno := 0\<rparr>)"
    using reset_then_check [where oob = 0 and c = ?c and ?next = True and e = "lex_env 0 0"] h1
    by (simp add: example_defs bt_cursor_key_order_reset_def)
  have r2: "bt_col_cursor_key_order_check 0 (bt_cursor_key_order_reset 0 ?c) True
       = Inr (0, (mk_cursor (mk_page 1 [] None) 1 3 0)\<lparr>iface_key := [1], lastkey := [], lastrecno := 3\<rparr>)"
    using reset_then_check [where oob = 0 and c = ?c and ?next = True and e = "lex_env 0 0"]
    by (simp add: example_defs bt_cursor_key_order_reset_def)
  have r3: "map_sum id fst
      (bt_row_cursor_key_order_check (lex_env ENOMEM 0) (bt_cursor_key_order_reset 0 ?c) True)
       = Inr ENOMEM"
    using reset_then_check [where oob = 0 and c = ?c and ?next = True and e = "lex_env ENOMEM 0"] h2
    by (simp add: example_defs bt_cursor_key_order_reset_def)
  from h1 r1 r2 h2 r3 show ?thesis by simp
qed

text \<open>
  Slot 1 of a page: logical slot 4 on the page and 5 on the insert list that follows
  it; two cursors on the page slot, different in their other fields, are at the same
  position.
\<close>

theorem row_logical_slot_witness:
  "unat (slot (mk_cursor (mk_page 3 [] None) 0 0 1)) < 2 ^ 31 - 1
   \<and> unat (row_iteration_slot (bt_row_cursor_iterate_setup (mk_cursor (mk_page 3 [] None) 0 0 1))) = 4
   \<and> unat (row_iteration_slot (bt_row_cursor_iterate_setup
        ((mk_cursor (mk_page 3 [] None) 0 0 1)\<lparr>ins_head := Some 7\<rparr>))) = 5
   \<and> row_iteration_slot (bt_row_cursor_iterate_setup (mk_cursor (mk_page 3 [] None) 0 0 1))
       = row_iteration_slot (bt_row_cursor_iterate_setup
           ((mk_cursor (mk_page 3 [] None) 6 6 1)\<lparr>ins := Some 3\<rparr>))
   \<and> row_position_of (mk_cursor (mk_page 3 [] None) 0 0 1)
       = row_position_of ((mk_cursor (mk_page 3 [] None) 6 6 1)\<lparr>ins := Some 3\<rparr>)"
proof -
  let ?c = "mk_cursor (mk_page 3 [] None) 0 0 1"
  let ?d = "(mk_cursor (mk_page 3 [] None) 0 0 1)\<lparr>ins_head := Some 7\<rparr>"
  let ?e = "(mk_cursor (mk_page 3 [] None) 6 6 1)\<lparr>ins := Some 3\<rparr>"
  have h: "unat (slot ?c) < 2 ^ 31 - 1" "unat (slot ?d) < 2 ^ 31 - 1" "unat (slot ?e) < 2 ^ 31 - 1"
    by (simp_all add: example_defs)
  have q: "row_iteration_slot (bt_row_cursor_iterate_setup ?c)
       = row_iteration_slot (bt_row_cursor_iterate_setup ?e)"
    by (simp add: bt_row_cursor_iterate_setup_def Let_def example_defs)
  have r1: "unat (row_iteration_slot (bt_row_cursor_iterate_setup ?c)) = 4"
    using row_logical_slot [where c = ?c and c' = ?c] h(1) by (simp add: row_position_of_def example_defs)
  have r2: "unat (row_iteration_slot (bt_row_cursor_iterate_setup ?d)) = 5"
    using row_logical_slot [where c = ?d and c' = ?d] h(2) by (simp add: row_position_of_def example_defs)
  have r3: "row_position_of ?c = row_position_of ?e"
    using row_logical_slot [where c = ?c and c' = ?e] h(1) h(3) q by blast
  from h(1) r1 r2 q r3 show ?thesis by simp
qed


text \<open>
  On the pages of three entries: slot 1 is read in bounds; the slot \<open>UINT32_MAX\<close>
  passes the assertion and is read outside the array, in both layouts.
\<close>

theorem slot_read_in_bounds_witness:
  "var_page_wf (page (ref (cbt (var_state UINT32_MAX))))
   \<and> entries (page (ref (cbt (var_state UINT32_MAX)))) \<noteq> 0
   \<and> ins (cbt (var_state UINT32_MAX)) = None
   \<and> slot_assertion (cbt (var_state UINT32_MAX))
   \<and> bt_col_var_cursor_valid True (var_state UINT32_MAX) = Inl OutOfBounds
   \<and> bt_col_var_cursor_valid True (var_state 1) \<noteq> Inl OutOfBounds
   \<and> row_page_wf (page (ref (cbt (row_state UINT32_MAX))))
   \<and> slot_assertion (cbt (row_state UINT32_MAX))
   \<and> bt_row_cursor_valid True read_newest (row_state UINT32_MAX) = Inl OutOfBounds
   \<and> bt_row_cursor_valid True read_newest (row_state 1) \<noteq> Inl OutOfBounds"
proof -
  have v: "var_page_wf (page (ref (cbt (var_state k))))"
    "entries (page (ref (cbt (var_state k)))) \<noteq> 0" "ins (cbt (var_state k)) = None" for k
    by (simp_all add: example_defs var_page_wf_def)
  have w: "row_page_wf (page (ref (cbt (row_state k))))"
    "entries (page (ref (cbt (row_state k)))) \<noteq> 0" "ins (cbt (row_state k)) = None"
    "modify (page (ref (cbt (row_state k))))
       = Some \<lparr>mod_row_update = Some [[upd_standard], [upd_tombstone], []]\<rparr>"
    "mod_row_update \<lparr>mod_row_update = Some [[upd_standard], [upd_tombstone], []]\<rparr>
       = Some [[upd_standard], [upd_tombstone], []]" for k
    by (simp_all add: example_defs row_page_wf_def)
  have sv: "slot (cbt (var_state k)) = k" and sr: "slot (cbt (row_state k)) = k" for k
    by (simp_all add: example_defs)
  have lt: "slot (cbt (var_state 1)) < entries (page (ref (cbt (var_state 1))))"
    "slot (cbt (row_state 1)) < entries (page (ref (cbt (row_state 1))))"
    by (simp_all add: example_defs)
  have r1: "slot_assertion (cbt (var_state UINT32_MAX))
      \<and> bt_col_var_cursor_valid True (var_state UINT32_MAX) = Inl OutOfBounds"
    using slot_read_in_bounds [where s = "var_state UINT32_MAX" and diag = True] v sv
    by blast
  have r2: "bt_col_var_cursor_valid True (var_state 1) \<noteq> Inl OutOfBounds"
    using slot_read_in_bounds [where s = "var_state 1" and diag = True] v lt(1)
    by blast
  have r3: "slot_assertion (cbt (row_state UINT32_MAX))
      \<and> bt_row_cursor_valid True read_newest (row_state UINT32_MAX) = Inl OutOfBounds"
    using slot_read_in_bounds [where s = "row_state UINT32_MAX" and diag = True
        and txn_read = read_newest
        and m = "\<lparr>mod_row_update = Some [[upd_standard], [upd_tombstone], []]\<rparr>"
        and arr = "[[upd_standard], [upd_tombstone], []]"] w sr
    by blast
  have r4: "bt_row_cursor_valid True read_newest (row_state 1) \<noteq> Inl OutOfBounds"
    using slot_read_in_bounds [where s = "row_state 1" and diag = True
        and txn_read = read_newest
        and m = "\<lparr>mod_row_update = Some [[upd_standard], [upd_tombstone], []]\<rparr>"
        and arr = "[[upd_standard], [upd_tombstone], []]"] w lt(2)
    by blast
  from v [of UINT32_MAX] w(1) [of UINT32_MAX] r1 r2 r3 r4 show ?thesis by simp
qed

end
